theory Spec2Isabelle
  imports Complex_Main
begin

section \<open>Momentum X: time powers, obstacles, difficulty and score\<close>

text \<open>
  The development follows the canvas version of the game: \<^verbatim>\<open>powers.js\<close> (class
  PowerManager), \<^verbatim>\<open>obstacles.js\<close> (classes Obstacle and ObstacleManager),
  \<^verbatim>\<open>player.js\<close> (class Player), \<^verbatim>\<open>game.js\<close> (class Game) and the constants of
  the canvas \<^verbatim>\<open>utils.js\<close>. JavaScript numbers are modelled as exact reals, counters
  and the difficulty level as integers. Mutation of \<^verbatim>\<open>this\<close> is explicit state passing.
  Rendering, console output, particles and the parallax background do not influence any
  modelled field and are left out.
\<close>

subsection \<open>Constants (GAME_CONFIG, TIME_STATES, GAME_STATES, OBSTACLE_TYPES)\<close>

definition CANVAS_WIDTH :: real where "CANVAS_WIDTH = 1200"
definition CANVAS_HEIGHT :: real where "CANVAS_HEIGHT = 600"
definition PLAYER_WIDTH :: real where "PLAYER_WIDTH = 40"
definition PLAYER_HEIGHT :: real where "PLAYER_HEIGHT = 60"
definition PLAYER_X :: real where "PLAYER_X = 100"
definition PLAYER_Y :: real where "PLAYER_Y = 480"
definition PLAYER_SPEED :: real where "PLAYER_SPEED = 300"
definition OBSTACLE_MIN_SPEED :: real where "OBSTACLE_MIN_SPEED = 200"
definition OBSTACLE_SPAWN_RATE :: real where "OBSTACLE_SPAWN_RATE = 1500"
definition OBSTACLE_MIN_GAP :: real where "OBSTACLE_MIN_GAP = 500"
definition FREEZE_DURATION :: real where "FREEZE_DURATION = 2000"
definition FREEZE_COOLDOWN :: real where "FREEZE_COOLDOWN = 5000"
definition SLOW_DURATION :: real where "SLOW_DURATION = 3000"
definition SLOW_COOLDOWN :: real where "SLOW_COOLDOWN = 4000"
definition SPEED_DURATION :: real where "SPEED_DURATION = 1500"
definition SPEED_COOLDOWN :: real where "SPEED_COOLDOWN = 6000"
definition SCORE_PER_SECOND :: real where "SCORE_PER_SECOND = 1"
definition SCORE_PER_OBSTACLE :: real where "SCORE_PER_OBSTACLE = 5"
definition DIFFICULTY_INTERVAL :: real where "DIFFICULTY_INTERVAL = 20000"
definition DIFFICULTY_SPEED_INCREASE :: real where "DIFFICULTY_SPEED_INCREASE = 0.2"
definition DIFFICULTY_SPAWN_DECREASE :: real where "DIFFICULTY_SPAWN_DECREASE = 150"

datatype TIME_STATES = NORMAL | FROZEN | SLOW | FAST

datatype GAME_STATES = MENU | PLAYING | GAME_OVER

datatype OBSTACLE_TYPES = SPIKE | DEBRIS | LASER

subsection \<open>PowerManager (powers.js)\<close>

text \<open>
  One entry of \<^verbatim>\<open>this.powers\<close>. The \<^verbatim>\<open>key\<close> field is only a label for the HUD
  and is left out.
\<close>

record Power =
  active :: bool
  cooldown :: real
  duration :: real
  maxDuration :: real
  maxCooldown :: real

record PowerManager =
  freeze :: Power
  slow :: Power
  speed :: Power
  currentTimeState :: TIME_STATES
  timeMultiplier :: real

text \<open>
  The keys of \<^verbatim>\<open>this.powers\<close>. \<^verbatim>\<open>Object.keys(this.powers)\<close> enumerates them in
  insertion order: freeze, slow, speed. The guards \<^verbatim>\<open>if (!power)\<close> of the source only
  fire for a string that is no key of the dictionary; the key type has exactly the three
  keys, so these guards have no branch here.
\<close>

datatype powerName = Freeze | Slow | Speed

definition powerNames :: "powerName list" where
  "powerNames = [Freeze, Slow, Speed]"

fun getPower :: "powerName \<Rightarrow> PowerManager \<Rightarrow> Power" where
  "getPower Freeze pm = freeze pm"
| "getPower Slow pm = slow pm"
| "getPower Speed pm = speed pm"

fun setPower :: "powerName \<Rightarrow> Power \<Rightarrow> PowerManager \<Rightarrow> PowerManager" where
  "setPower Freeze p pm = pm\<lparr>freeze := p\<rparr>"
| "setPower Slow p pm = pm\<lparr>slow := p\<rparr>"
| "setPower Speed p pm = pm\<lparr>speed := p\<rparr>"

text \<open>The constructor.\<close>

definition PowerManager_new :: PowerManager where
  "PowerManager_new =
     \<lparr> freeze = \<lparr> active = False, cooldown = 0, duration = 0,
                  maxDuration = FREEZE_DURATION, maxCooldown = FREEZE_COOLDOWN \<rparr>,
       slow = \<lparr> active = False, cooldown = 0, duration = 0,
                maxDuration = SLOW_DURATION, maxCooldown = SLOW_COOLDOWN \<rparr>,
       speed = \<lparr> active = False, cooldown = 0, duration = 0,
                 maxDuration = SPEED_DURATION, maxCooldown = SPEED_COOLDOWN \<rparr>,
       currentTimeState = NORMAL,
       timeMultiplier = 1 \<rparr>"

text \<open>\<^verbatim>\<open>updateTimeState()\<close>: the if/else-if chain over the three active flags.\<close>

definition updateTimeState :: "PowerManager \<Rightarrow> PowerManager" where
  "updateTimeState pm =
     (if active (freeze pm) then pm\<lparr>currentTimeState := FROZEN, timeMultiplier := 0\<rparr>
      else if active (slow pm) then pm\<lparr>currentTimeState := SLOW, timeMultiplier := 0.5\<rparr>
      else if active (speed pm) then pm\<lparr>currentTimeState := FAST, timeMultiplier := 2\<rparr>
      else pm\<lparr>currentTimeState := NORMAL, timeMultiplier := 1\<rparr>)"

text \<open>\<^verbatim>\<open>canActivatePower(powerName)\<close>.\<close>

definition canActivatePower :: "powerName \<Rightarrow> PowerManager \<Rightarrow> bool" where
  "canActivatePower n pm = (cooldown (getPower n pm) \<le> 0 \<and> \<not> active (getPower n pm))"

text \<open>\<^verbatim>\<open>deactivatePower(powerName)\<close>: clears the flag and the duration, keeps the
  cooldown, recomputes the time state.\<close>

definition deactivatePower :: "powerName \<Rightarrow> PowerManager \<Rightarrow> PowerManager" where
  "deactivatePower n pm =
     updateTimeState (setPower n ((getPower n pm)\<lparr>active := False, duration := 0\<rparr>) pm)"

text \<open>\<^verbatim>\<open>deactivateAllPowers()\<close>: the forEach over the keys.\<close>

definition deactivateIfActive :: "powerName \<Rightarrow> PowerManager \<Rightarrow> PowerManager" where
  "deactivateIfActive n pm = (if active (getPower n pm) then deactivatePower n pm else pm)"

definition deactivateAllPowers :: "PowerManager \<Rightarrow> PowerManager" where
  "deactivateAllPowers pm = fold deactivateIfActive powerNames pm"

text \<open>
  \<^verbatim>\<open>activateFreeze()\<close>, \<^verbatim>\<open>activateSlow()\<close>, \<^verbatim>\<open>activateSpeed()\<close>: the boolean is
  the return value, the manager is the state after the call.
\<close>

definition activateFreeze :: "PowerManager \<Rightarrow> bool \<times> PowerManager" where
  "activateFreeze pm =
     (if \<not> canActivatePower Freeze pm then (False, pm)
      else
        let pm1 = deactivateAllPowers pm;
            power = freeze pm1;
            pm2 = pm1\<lparr>freeze := power\<lparr>active := True, duration := maxDuration power,
                                       cooldown := maxCooldown power\<rparr>\<rparr>
        in (True, updateTimeState pm2))"

definition activateSlow :: "PowerManager \<Rightarrow> bool \<times> PowerManager" where
  "activateSlow pm =
     (if \<not> canActivatePower Slow pm then (False, pm)
      else
        let pm1 = deactivateAllPowers pm;
            power = slow pm1;
            pm2 = pm1\<lparr>slow := power\<lparr>active := True, duration := maxDuration power,
                                     cooldown := maxCooldown power\<rparr>\<rparr>
        in (True, updateTimeState pm2))"

definition activateSpeed :: "PowerManager \<Rightarrow> bool \<times> PowerManager" where
  "activateSpeed pm =
     (if \<not> canActivatePower Speed pm then (False, pm)
      else
        let pm1 = deactivateAllPowers pm;
            power = speed pm1;
            pm2 = pm1\<lparr>speed := power\<lparr>active := True, duration := maxDuration power,
                                      cooldown := maxCooldown power\<rparr>\<rparr>
        in (True, updateTimeState pm2))"

text \<open>An activation request by name, as the key handler of the game dispatches it.\<close>

fun activate :: "powerName \<Rightarrow> PowerManager \<Rightarrow> bool \<times> PowerManager" where
  "activate Freeze pm = activateFreeze pm"
| "activate Slow pm = activateSlow pm"
| "activate Speed pm = activateSpeed pm"

text \<open>
  \<^verbatim>\<open>update(deltaTime)\<close>. The body of the forEach for one key: the active duration
  is counted down and the power deactivated when it reaches zero or below; then the
  cooldown, when positive, is counted down and set to zero when it reaches zero or below.
  The local counter \<^verbatim>\<open>activeCount\<close> is never read and is left out.
\<close>

definition updatePower :: "real \<Rightarrow> powerName \<Rightarrow> PowerManager \<Rightarrow> PowerManager" where
  "updatePower deltaTime n pm =
     (let pm1 =
            (if active (getPower n pm) then
               let pm' = setPower n ((getPower n pm)\<lparr>duration := duration (getPower n pm) - deltaTime\<rparr>) pm
               in if duration (getPower n pm') \<le> 0 then deactivatePower n pm' else pm'
             else pm);
          power = getPower n pm1
      in if cooldown power > 0 then
           let c = cooldown power - deltaTime
           in setPower n (power\<lparr>cooldown := (if c \<le> 0 then 0 else c)\<rparr>) pm1
         else pm1)"

definition PowerManager_update :: "real \<Rightarrow> PowerManager \<Rightarrow> PowerManager" where
  "PowerManager_update deltaTime pm =
     updateTimeState (fold (updatePower deltaTime) powerNames pm)"

text \<open>\<^verbatim>\<open>reset()\<close>.\<close>

definition resetPower :: "powerName \<Rightarrow> PowerManager \<Rightarrow> PowerManager" where
  "resetPower n pm = setPower n ((getPower n pm)\<lparr>active := False, cooldown := 0, duration := 0\<rparr>) pm"

definition PowerManager_reset :: "PowerManager \<Rightarrow> PowerManager" where
  "PowerManager_reset pm =
     (fold resetPower powerNames pm)\<lparr>currentTimeState := NORMAL, timeMultiplier := 1\<rparr>"

definition getCurrentMultiplier :: "PowerManager \<Rightarrow> real" where
  "getCurrentMultiplier pm = timeMultiplier pm"

definition getCurrentTimeState :: "PowerManager \<Rightarrow> TIME_STATES" where
  "getCurrentTimeState pm = currentTimeState pm"

text \<open>
  The operations a caller can perform on a PowerManager, and a run of them from the
  constructor state.
\<close>

datatype pm_op =
    OpUpdate real
  | OpActivate powerName
  | OpDeactivate powerName
  | OpDeactivateAll
  | OpReset

fun pm_step :: "PowerManager \<Rightarrow> pm_op \<Rightarrow> PowerManager" where
  "pm_step pm (OpUpdate deltaTime) = PowerManager_update deltaTime pm"
| "pm_step pm (OpActivate n) = snd (activate n pm)"
| "pm_step pm (OpDeactivate n) = deactivatePower n pm"
| "pm_step pm OpDeactivateAll = deactivateAllPowers pm"
| "pm_step pm OpReset = PowerManager_reset pm"

definition pm_run :: "pm_op list \<Rightarrow> PowerManager" where
  "pm_run ops = foldl pm_step PowerManager_new ops"

text \<open>The precedence table: Frozen over Slow over Fast over Normal.\<close>

definition stateOfFlags :: "bool \<Rightarrow> bool \<Rightarrow> bool \<Rightarrow> TIME_STATES" where
  "stateOfFlags f s d = (if f then FROZEN else if s then SLOW else if d then FAST else NORMAL)"

definition multiplierOfFlags :: "bool \<Rightarrow> bool \<Rightarrow> bool \<Rightarrow> real" where
  "multiplierOfFlags f s d = (if f then 0 else if s then 0.5 else if d then 2 else 1)"

definition countActive :: "PowerManager \<Rightarrow> nat" where
  "countActive pm = length (filter active [freeze pm, slow pm, speed pm])"

subsection \<open>Obstacle and ObstacleManager (obstacles.js)\<close>

text \<open>
  Field names carry a prefix (\<open>o_\<close> for Obstacle, \<open>p_\<close> for Player, \<open>om_\<close> where an
  ObstacleManager field shares its name with a Game field) since record fields are global
  names. The colours and \<^verbatim>\<open>pulseIntensity\<close> (a sine of the animation time, read by
  the renderer only) are left out.
\<close>

record Rect =
  r_x :: real
  r_y :: real
  r_width :: real
  r_height :: real

record Obstacle =
  o_x :: real
  o_y :: real
  o_type :: OBSTACLE_TYPES
  o_width :: real
  o_height :: real
  o_speed :: real
  o_baseSpeed :: real
  o_animationTime :: real
  o_isActive :: bool
  o_hasBeenPassed :: bool

text \<open>\<^verbatim>\<open>setDimensionsByType()\<close>; the default branch is for a type outside OBSTACLE_TYPES.\<close>

fun widthByType :: "OBSTACLE_TYPES \<Rightarrow> real" where
  "widthByType SPIKE = 30"
| "widthByType DEBRIS = 50"
| "widthByType LASER = 15"

fun heightByType :: "OBSTACLE_TYPES \<Rightarrow> real" where
  "heightByType SPIKE = 80"
| "heightByType DEBRIS = 50"
| "heightByType LASER = 120"

definition Obstacle_new :: "real \<Rightarrow> real \<Rightarrow> OBSTACLE_TYPES \<Rightarrow> real \<Rightarrow> Obstacle" where
  "Obstacle_new x y t s =
     \<lparr> o_x = x, o_y = y, o_type = t, o_width = widthByType t, o_height = heightByType t,
       o_speed = s, o_baseSpeed = s, o_animationTime = 0, o_isActive = True,
       o_hasBeenPassed = False \<rparr>"

text \<open>\<^verbatim>\<open>Obstacle.update(deltaTime, speedMultiplier = 1.0)\<close>.\<close>

definition Obstacle_update :: "real \<Rightarrow> real \<Rightarrow> Obstacle \<Rightarrow> Obstacle" where
  "Obstacle_update deltaTime speedMultiplier ob =
     (if \<not> o_isActive ob then ob
      else
        let ob1 = ob\<lparr>o_animationTime := o_animationTime ob + deltaTime\<rparr>;
            currentSpeed = o_speed ob1 * speedMultiplier
        in ob1\<lparr>o_x := o_x ob1 - currentSpeed * (deltaTime / 1000)\<rparr>)"

definition Obstacle_getBounds :: "Obstacle \<Rightarrow> Rect" where
  "Obstacle_getBounds ob =
     \<lparr> r_x = o_x ob, r_y = o_y ob, r_width = o_width ob, r_height = o_height ob \<rparr>"

definition isOffScreen :: "Obstacle \<Rightarrow> bool" where
  "isOffScreen ob = (o_x ob + o_width ob < 0)"

definition hasPlayerPassed :: "real \<Rightarrow> Obstacle \<Rightarrow> bool" where
  "hasPlayerPassed playerX ob = (\<not> o_hasBeenPassed ob \<and> o_x ob + o_width ob < playerX)"

definition markAsPassed :: "Obstacle \<Rightarrow> Obstacle" where
  "markAsPassed ob = ob\<lparr>o_hasBeenPassed := True\<rparr>"

text \<open>\<^verbatim>\<open>checkCollision(rect1, rect2)\<close> of utils.js (axis-aligned bounding boxes).\<close>

definition checkCollision :: "Rect \<Rightarrow> Rect \<Rightarrow> bool" where
  "checkCollision rect1 rect2 =
     (r_x rect1 < r_x rect2 + r_width rect2 \<and>
      r_x rect1 + r_width rect1 > r_x rect2 \<and>
      r_y rect1 < r_y rect2 + r_height rect2 \<and>
      r_y rect1 + r_height rect1 > r_y rect2)"

text \<open>\<^verbatim>\<open>randomBetween(min, max)\<close> of utils.js, as a function of the value \<open>u\<close> that
  \<^verbatim>\<open>Math.random()\<close> returned.\<close>

definition randomBetween :: "real \<Rightarrow> real \<Rightarrow> real \<Rightarrow> real" where
  "randomBetween u lo hi = u * (hi - lo) + lo"

text \<open>
  The random draws of one \<^verbatim>\<open>spawnObstacle()\<close> call: the element of
  \<^verbatim>\<open>Object.values(OBSTACLE_TYPES)\<close> that \<^verbatim>\<open>randomIntBetween\<close> selected, and the
  value of \<^verbatim>\<open>Math.random()\<close> used for the spawn height.
\<close>

record draws =
  drawType :: OBSTACLE_TYPES
  drawY :: real

record ObstacleManager =
  obstacles :: "Obstacle list"
  lastSpawnTime :: real
  spawnRate :: real
  minSpawnGap :: real
  om_difficultyLevel :: int
  baseSpawnRate :: real
  om_baseSpeed :: real
  totalSpawned :: int
  totalDestroyed :: int

definition ObstacleManager_new :: ObstacleManager where
  "ObstacleManager_new =
     \<lparr> obstacles = [], lastSpawnTime = 0, spawnRate = OBSTACLE_SPAWN_RATE,
       minSpawnGap = OBSTACLE_MIN_GAP, om_difficultyLevel = 0,
       baseSpawnRate = OBSTACLE_SPAWN_RATE, om_baseSpeed = OBSTACLE_MIN_SPEED,
       totalSpawned = 0, totalDestroyed = 0 \<rparr>"

definition updateSpawnRate :: "ObstacleManager \<Rightarrow> ObstacleManager" where
  "updateSpawnRate om =
     om\<lparr>spawnRate := max (minSpawnGap om)
                         (baseSpawnRate om - of_int (om_difficultyLevel om) * DIFFICULTY_SPAWN_DECREASE)\<rparr>"

definition getSpawnYForType :: "real \<Rightarrow> OBSTACLE_TYPES \<Rightarrow> real" where
  "getSpawnYForType u t =
     (let groundLevel = CANVAS_HEIGHT - 100
      in case t of
           SPIKE \<Rightarrow> groundLevel - 80
         | DEBRIS \<Rightarrow> randomBetween u 200 (groundLevel - 50)
         | LASER \<Rightarrow> randomBetween u 100 (groundLevel - 120))"

definition spawnObstacle :: "draws \<Rightarrow> ObstacleManager \<Rightarrow> ObstacleManager" where
  "spawnObstacle d om =
     (let randomType = drawType d;
          spawnX = CANVAS_WIDTH + 50;
          spawnY = getSpawnYForType (drawY d) randomType;
          s = om_baseSpeed om
              + of_int (om_difficultyLevel om) * DIFFICULTY_SPEED_INCREASE * om_baseSpeed om;
          obstacle = Obstacle_new spawnX spawnY randomType s
      in om\<lparr>obstacles := obstacles om @ [obstacle], totalSpawned := totalSpawned om + 1\<rparr>)"

definition handleSpawning :: "real \<Rightarrow> draws \<Rightarrow> ObstacleManager \<Rightarrow> ObstacleManager" where
  "handleSpawning timeElapsed d om =
     (if timeElapsed - lastSpawnTime om \<ge> spawnRate om
      then (spawnObstacle d om)\<lparr>lastSpawnTime := timeElapsed\<rparr>
      else om)"

definition updateObstacles :: "real \<Rightarrow> real \<Rightarrow> ObstacleManager \<Rightarrow> ObstacleManager" where
  "updateObstacles deltaTime speedMultiplier om =
     om\<lparr>obstacles := map (Obstacle_update deltaTime speedMultiplier) (obstacles om)\<rparr>"

text \<open>\<^verbatim>\<open>removeOffscreenObstacles()\<close>: the filter callback increments
  \<^verbatim>\<open>totalDestroyed\<close> once for every obstacle it drops.\<close>

definition removeOffscreenObstacles :: "ObstacleManager \<Rightarrow> ObstacleManager" where
  "removeOffscreenObstacles om =
     om\<lparr>obstacles := filter (\<lambda>ob. \<not> isOffScreen ob) (obstacles om),
        totalDestroyed := totalDestroyed om + int (length (filter isOffScreen (obstacles om)))\<rparr>"

text \<open>\<^verbatim>\<open>ObstacleManager.update(deltaTime, timeElapsed, difficultyLevel, speedMultiplier = 1.0)\<close>.\<close>

definition ObstacleManager_update ::
  "real \<Rightarrow> real \<Rightarrow> int \<Rightarrow> real \<Rightarrow> draws \<Rightarrow> ObstacleManager \<Rightarrow> ObstacleManager" where
  "ObstacleManager_update deltaTime timeElapsed difficultyLevel speedMultiplier d om =
     removeOffscreenObstacles
       (updateObstacles deltaTime speedMultiplier
          (handleSpawning timeElapsed d
             (updateSpawnRate (om\<lparr>om_difficultyLevel := difficultyLevel\<rparr>))))"

text \<open>\<^verbatim>\<open>checkCollisions(player)\<close>, on the player's bounds: the first obstacle in
  storage order whose bounds intersect them, or null.\<close>

definition checkCollisions :: "Rect \<Rightarrow> ObstacleManager \<Rightarrow> Obstacle option" where
  "checkCollisions playerBounds om =
     find (\<lambda>ob. checkCollision playerBounds (Obstacle_getBounds ob)) (obstacles om)"

text \<open>\<^verbatim>\<open>checkObstaclesPassed(playerX)\<close>: the count returned and the manager with the
  counted obstacles marked.\<close>

definition checkObstaclesPassed :: "real \<Rightarrow> ObstacleManager \<Rightarrow> nat \<times> ObstacleManager" where
  "checkObstaclesPassed playerX om =
     (length (filter (hasPlayerPassed playerX) (obstacles om)),
      om\<lparr>obstacles := map (\<lambda>ob. if hasPlayerPassed playerX ob then markAsPassed ob else ob)
                            (obstacles om)\<rparr>)"

definition ObstacleManager_reset :: "ObstacleManager \<Rightarrow> ObstacleManager" where
  "ObstacleManager_reset om =
     om\<lparr>obstacles := [], lastSpawnTime := 0, spawnRate := baseSpawnRate om,
        om_difficultyLevel := 0, totalSpawned := 0, totalDestroyed := 0\<rparr>"




subsection \<open>Player (player.js)\<close>

record Player =
  p_x :: real
  p_y :: real
  p_width :: real
  p_height :: real
  p_speed :: real
  p_baseSpeed :: real
  p_animationTime :: real
  p_isActive :: bool

definition Player_new :: Player where
  "Player_new =
     \<lparr> p_x = PLAYER_X, p_y = PLAYER_Y, p_width = PLAYER_WIDTH, p_height = PLAYER_HEIGHT,
       p_speed = PLAYER_SPEED, p_baseSpeed = PLAYER_SPEED, p_animationTime = 0,
       p_isActive = True \<rparr>"

text \<open>\<^verbatim>\<open>clamp(value, min, max)\<close> of utils.js.\<close>

definition clamp :: "real \<Rightarrow> real \<Rightarrow> real \<Rightarrow> real" where
  "clamp v lo hi = min (max v lo) hi"

text \<open>\<^verbatim>\<open>Player.update(deltaTime, speedMultiplier = 1.0)\<close>.\<close>

definition Player_update :: "real \<Rightarrow> real \<Rightarrow> Player \<Rightarrow> Player" where
  "Player_update deltaTime speedMultiplier p =
     (if \<not> p_isActive p then p
      else
        let p1 = p\<lparr>p_animationTime := p_animationTime p + deltaTime\<rparr>;
            currentSpeed = p_speed p1 * speedMultiplier;
            p2 = p1\<lparr>p_x := p_x p1 + currentSpeed * (deltaTime / 1000)\<rparr>
        in p2\<lparr>p_x := clamp (p_x p2) 50 (CANVAS_WIDTH - p_width p2 - 50)\<rparr>)"

definition Player_getBounds :: "Player \<Rightarrow> Rect" where
  "Player_getBounds p =
     \<lparr> r_x = p_x p, r_y = p_y p, r_width = p_width p, r_height = p_height p \<rparr>"

definition Player_reset :: "Player \<Rightarrow> Player" where
  "Player_reset p =
     p\<lparr>p_x := PLAYER_X, p_y := PLAYER_Y, p_speed := p_baseSpeed p, p_animationTime := 0,
       p_isActive := True\<rparr>"

subsection \<open>Game (game.js)\<close>

text \<open>
  The game object after \<^verbatim>\<open>init()\<close>: \<^verbatim>\<open>initializeGameSystems()\<close> has created the
  player and the obstacle manager, so the guards \<^verbatim>\<open>if (this.player)\<close> and
  \<^verbatim>\<open>if (this.obstacleManager)\<close> hold. The field \<^verbatim>\<open>powerManager\<close> is null in the
  constructor and \<^verbatim>\<open>initializeGameSystems()\<close> leaves it so (the line that would
  create the PowerManager is commented out); it is an option here.
\<close>

record Game =
  state :: GAME_STATES
  score :: real
  timeElapsed :: real
  difficultyLevel :: int
  isRunning :: bool
  player :: Player
  obstacleManager :: ObstacleManager
  powerManager :: "PowerManager option"

definition Game_init :: Game where
  "Game_init =
     \<lparr> state = MENU, score = 0, timeElapsed = 0, difficultyLevel = 0, isRunning = False,
       player = Player_new, obstacleManager = ObstacleManager_new, powerManager = None \<rparr>"

definition startGame :: "Game \<Rightarrow> Game" where
  "startGame g =
     g\<lparr>state := PLAYING, score := 0, timeElapsed := 0, difficultyLevel := 0,
       isRunning := True\<rparr>"

text \<open>\<^verbatim>\<open>updateDifficulty()\<close>: the level is raised, never lowered.\<close>

definition updateDifficulty :: "Game \<Rightarrow> Game" where
  "updateDifficulty g =
     (let newDifficultyLevel = \<lfloor>timeElapsed g / DIFFICULTY_INTERVAL\<rfloor>
      in if newDifficultyLevel > difficultyLevel g
         then g\<lparr>difficultyLevel := newDifficultyLevel\<rparr>
         else g)"

text \<open>\<^verbatim>\<open>updateScore(deltaTime)\<close>.\<close>

definition updateScore :: "real \<Rightarrow> Game \<Rightarrow> Game" where
  "updateScore deltaTime g =
     (let timeScore = (deltaTime / 1000) * SCORE_PER_SECOND
      in g\<lparr>score := score g + timeScore\<rparr>)"

definition handleGameOver :: "Game \<Rightarrow> Game" where
  "handleGameOver g = g\<lparr>state := GAME_OVER\<rparr>"

text \<open>
  \<^verbatim>\<open>Game.update(deltaTime)\<close>, with the random draws of the spawn this frame may
  make. The obstacle manager is called with three arguments, so its
  \<^verbatim>\<open>speedMultiplier\<close> is the default 1.0, as is the player's; the call
  \<^verbatim>\<open>this.powerManager.update(deltaTime)\<close> is commented out in the source.
\<close>

definition Game_update :: "real \<Rightarrow> draws \<Rightarrow> Game \<Rightarrow> Game" where
  "Game_update deltaTime d g =
     (if state g \<noteq> PLAYING then g
      else
        let g1 = g\<lparr>timeElapsed := timeElapsed g + deltaTime\<rparr>;
            g2 = updateDifficulty g1;
            g3 = updateScore deltaTime g2;
            g4 = g3\<lparr>player := Player_update deltaTime 1 (player g3)\<rparr>;
            g5 = g4\<lparr>obstacleManager :=
                      ObstacleManager_update deltaTime (timeElapsed g4) (difficultyLevel g4) 1 d
                        (obstacleManager g4)\<rparr>
        in case checkCollisions (Player_getBounds (player g5)) (obstacleManager g5) of
             Some collidedObstacle \<Rightarrow> handleGameOver g5
           | None \<Rightarrow>
               let (obstaclesPassed, om) = checkObstaclesPassed (p_x (player g5)) (obstacleManager g5);
                   g6 = g5\<lparr>obstacleManager := om\<rparr>
               in if obstaclesPassed > 0
                  then g6\<lparr>score := score g6 + of_nat obstaclesPassed * SCORE_PER_OBSTACLE\<rparr>
                  else g6)"

definition restart :: "Game \<Rightarrow> Game" where
  "restart g =
     startGame
       (g\<lparr>score := 0, timeElapsed := 0, difficultyLevel := 0,
          player := Player_reset (player g),
          obstacleManager := ObstacleManager_reset (obstacleManager g)\<rparr>)"

text \<open>\<^verbatim>\<open>handleKeyPress(keyCode)\<close>; \<open>OtherKey\<close> is any code without a case.\<close>

datatype keyCode = Space | KeyR | KeyF | KeyS | KeyD | OtherKey

definition activateInGame :: "powerName \<Rightarrow> Game \<Rightarrow> Game" where
  "activateInGame n g =
     (case powerManager g of
        None \<Rightarrow> g
      | Some pm \<Rightarrow>
          if state g = PLAYING then g\<lparr>powerManager := Some (snd (activate n pm))\<rparr> else g)"

fun handleKeyPress :: "keyCode \<Rightarrow> Game \<Rightarrow> Game" where
  "handleKeyPress Space g = (if state g = MENU then startGame g else g)"
| "handleKeyPress KeyR g = (if state g = GAME_OVER then restart g else g)"
| "handleKeyPress KeyF g = activateInGame Freeze g"
| "handleKeyPress KeyS g = activateInGame Slow g"
| "handleKeyPress KeyD g = activateInGame Speed g"
| "handleKeyPress OtherKey g = g"

text \<open>A run of frames: each frame is a \<^verbatim>\<open>deltaTime\<close> with its random draws.\<close>

definition Game_run :: "(real \<times> draws) list \<Rightarrow> Game \<Rightarrow> Game" where
  "Game_run frames g = foldl (\<lambda>g' (deltaTime, d). Game_update deltaTime d g') g frames"

subsection \<open>The Three.js variant of Game\<close>

text \<open>
  The repository holds a second Game class, written for the Three.js version, whose
  \<^verbatim>\<open>updateScore\<close> and pass bonus read the time state of its power manager. Its two
  score computations are given here for comparison with \<^verbatim>\<open>game.js\<close>; they take the
  score and return the new score.
\<close>

definition scoreMultiplier_three :: "PowerManager option \<Rightarrow> real" where
  "scoreMultiplier_three pmo =
     (case pmo of
        None \<Rightarrow> 1
      | Some pm \<Rightarrow> if getCurrentTimeState pm = FAST then 2 else 1)"

definition updateScore_three :: "real \<Rightarrow> PowerManager option \<Rightarrow> real \<Rightarrow> real" where
  "updateScore_three deltaTime pmo sc =
     (let timeScore = (deltaTime / 1000) * SCORE_PER_SECOND * scoreMultiplier_three pmo
      in sc + timeScore)"

definition passBonus_three :: "nat \<Rightarrow> TIME_STATES \<Rightarrow> real \<Rightarrow> real" where
  "passBonus_three obstaclesPassed timeState sc =
     (if obstaclesPassed > 0
      then sc + of_nat obstaclesPassed * SCORE_PER_OBSTACLE * (if timeState = FAST then 2 else 1)
      else sc)"

subsection \<open>Notions used in the statements\<close>

text \<open>
  The effect of one \<^verbatim>\<open>PowerManager.update(deltaTime)\<close> on a single entry of
  \<^verbatim>\<open>this.powers\<close>, read off the body of the forEach. Lemma \<open>getPower_update\<close> below
  shows that the update of the manager acts on every entry in this way.
\<close>

definition tickPower :: "real \<Rightarrow> Power \<Rightarrow> Power" where
  "tickPower deltaTime p =
     (let p1 = (if active p then
                  (if duration p - deltaTime \<le> 0 then p\<lparr>active := False, duration := 0\<rparr>
                   else p\<lparr>duration := duration p - deltaTime\<rparr>)
                else p)
      in if cooldown p1 > 0 then
           p1\<lparr>cooldown := (if cooldown p1 - deltaTime \<le> 0 then 0 else cooldown p1 - deltaTime)\<rparr>
         else p1)"

text \<open>A run of updates, one per element of the list of deltas.\<close>

definition PowerManager_run :: "real list \<Rightarrow> PowerManager \<Rightarrow> PowerManager" where
  "PowerManager_run ds pm = foldl (\<lambda>pm' deltaTime. PowerManager_update deltaTime pm') pm ds"

text \<open>The stored time state and multiplier agree with the precedence table.\<close>

definition timeConsistent :: "PowerManager \<Rightarrow> bool" where
  "timeConsistent pm =
     (currentTimeState pm = stateOfFlags (active (freeze pm)) (active (slow pm)) (active (speed pm)) \<and>
      timeMultiplier pm = multiplierOfFlags (active (freeze pm)) (active (slow pm)) (active (speed pm)))"

definition atMostOneActive :: "PowerManager \<Rightarrow> bool" where
  "atMostOneActive pm = (countActive pm \<le> 1)"

definition powerNonneg :: "Power \<Rightarrow> bool" where
  "powerNonneg p = (0 \<le> duration p \<and> 0 \<le> cooldown p \<and> 0 \<le> maxDuration p \<and> 0 \<le> maxCooldown p)"

definition timersNonneg :: "PowerManager \<Rightarrow> bool" where
  "timersNonneg pm = (powerNonneg (freeze pm) \<and> powerNonneg (slow pm) \<and> powerNonneg (speed pm))"

text \<open>The delta of an update operation is not negative.\<close>

fun deltaNonneg :: "pm_op \<Rightarrow> bool" where
  "deltaNonneg (OpUpdate deltaTime) = (0 \<le> deltaTime)"
| "deltaNonneg op = True"


definition levelExact :: "Game \<Rightarrow> bool" where
  "levelExact g = (difficultyLevel g = \<lfloor>timeElapsed g / DIFFICULTY_INTERVAL\<rfloor>)"

text \<open>
  Concrete inputs for the closed theorems. The draws select a debris obstacle at the
  top of its height range (y = 200), which never meets the player's bounds (y from 480
  to 540). \<open>gameWithPowers\<close> is the game after \<^verbatim>\<open>init()\<close> with a PowerManager in its
  \<^verbatim>\<open>powerManager\<close> field, as the commented-out line of
  \<^verbatim>\<open>initializeGameSystems()\<close> would create it. \<open>playingGame\<close> is that game after
  the Space key and one frame of 1500 ms, which spawns the first obstacle.
\<close>

definition sampleDraws :: draws where
  "sampleDraws = \<lparr> drawType = DEBRIS, drawY = 0 \<rparr>"

definition frozenManager :: PowerManager where
  "frozenManager = snd (activateFreeze PowerManager_new)"

definition fastManager :: PowerManager where
  "fastManager = snd (activateSpeed PowerManager_new)"

definition gameWithPowers :: Game where
  "gameWithPowers = Game_init\<lparr>powerManager := Some PowerManager_new\<rparr>"

definition playingGame :: Game where
  "playingGame = Game_update 1500 sampleDraws (handleKeyPress Space gameWithPowers)"



section \<open>Properties\<close>

lemmas GAME_CONFIG_defs =
  CANVAS_WIDTH_def CANVAS_HEIGHT_def PLAYER_WIDTH_def PLAYER_HEIGHT_def PLAYER_X_def
  PLAYER_Y_def PLAYER_SPEED_def OBSTACLE_MIN_SPEED_def OBSTACLE_SPAWN_RATE_def
  OBSTACLE_MIN_GAP_def FREEZE_DURATION_def FREEZE_COOLDOWN_def SLOW_DURATION_def
  SLOW_COOLDOWN_def SPEED_DURATION_def SPEED_COOLDOWN_def SCORE_PER_SECOND_def
  SCORE_PER_OBSTACLE_def DIFFICULTY_INTERVAL_def DIFFICULTY_SPEED_INCREASE_def
  DIFFICULTY_SPAWN_DECREASE_def

subsection \<open>PowerManager: how each operation acts on one power\<close>

lemma getPower_updateTimeState [simp]: "getPower m (updateTimeState pm) = getPower m pm"
  by (cases m) (simp_all add: updateTimeState_def)

lemma getPower_setPower [simp]: "getPower m (setPower n p pm) = (if m = n then p else getPower m pm)"
  by (cases m; cases n) simp_all

lemma getPower_deactivatePower:
  "getPower m (deactivatePower n pm) =
     (if m = n then (getPower n pm)\<lparr>active := False, duration := 0\<rparr> else getPower m pm)"
  by (simp add: deactivatePower_def)

lemma getPower_updatePower:
  "getPower m (updatePower dt n pm) = (if m = n then tickPower dt (getPower n pm) else getPower m pm)"
  by (simp add: updatePower_def tickPower_def Let_def getPower_deactivatePower)

lemma getPower_update:
  "getPower m (PowerManager_update dt pm) = tickPower dt (getPower m pm)"
  by (cases m) (simp_all add: PowerManager_update_def powerNames_def getPower_updatePower del: getPower.simps)

lemma getPower_run:
  "getPower n (PowerManager_run ds pm) = foldl (\<lambda>q d. tickPower d q) (getPower n pm) ds"
  unfolding PowerManager_run_def
  by (induction ds arbitrary: pm) (simp_all add: getPower_update)

lemma getPower_deactivateIfActive:
  "getPower m (deactivateIfActive n pm) =
     (if m = n \<and> active (getPower n pm) then (getPower n pm)\<lparr>active := False, duration := 0\<rparr>
      else getPower m pm)"
  by (simp add: deactivateIfActive_def getPower_deactivatePower)

lemma getPower_deactivateAllPowers:
  "getPower m (deactivateAllPowers pm) =
     (if active (getPower m pm) then (getPower m pm)\<lparr>active := False, duration := 0\<rparr>
      else getPower m pm)"
  by (cases m) (simp_all add: deactivateAllPowers_def powerNames_def getPower_deactivateIfActive del: getPower.simps)

lemma getPower_activate:
  "canActivatePower n pm \<Longrightarrow>
   getPower m (snd (activate n pm)) =
     (if m = n then (getPower n pm)\<lparr>active := True, duration := maxDuration (getPower n pm),
                                     cooldown := maxCooldown (getPower n pm)\<rparr>
      else if active (getPower m pm) then (getPower m pm)\<lparr>active := False, duration := 0\<rparr>
      else getPower m pm)"
proof -
  assume can: "canActivatePower n pm"
  have f: "freeze (deactivateAllPowers pm) =
      (if active (freeze pm) then (freeze pm)\<lparr>active := False, duration := 0\<rparr> else freeze pm)"
    using getPower_deactivateAllPowers [of Freeze pm] by simp
  have s: "slow (deactivateAllPowers pm) =
      (if active (slow pm) then (slow pm)\<lparr>active := False, duration := 0\<rparr> else slow pm)"
    using getPower_deactivateAllPowers [of Slow pm] by simp
  have d: "speed (deactivateAllPowers pm) =
      (if active (speed pm) then (speed pm)\<lparr>active := False, duration := 0\<rparr> else speed pm)"
    using getPower_deactivateAllPowers [of Speed pm] by simp
  show ?thesis
  proof (cases n)
    case Freeze
    with can show ?thesis
      by (cases m) (simp_all add: activateFreeze_def canActivatePower_def Let_def updateTimeState_def f s d)
  next
    case Slow
    with can show ?thesis
      by (cases m) (simp_all add: activateSlow_def canActivatePower_def Let_def updateTimeState_def f s d)
  next
    case Speed
    with can show ?thesis
      by (cases m) (simp_all add: activateSpeed_def canActivatePower_def Let_def updateTimeState_def f s d)
  qed
qed

lemma fst_activate: "fst (activate n pm) = canActivatePower n pm"
  by (cases n) (simp_all add: activateFreeze_def activateSlow_def activateSpeed_def Let_def)

lemma activate_fail: "\<not> canActivatePower n pm \<Longrightarrow> activate n pm = (False, pm)"
  by (cases n) (simp_all add: activateFreeze_def activateSlow_def activateSpeed_def)

lemma getPower_reset:
  "getPower m (PowerManager_reset pm) = (getPower m pm)\<lparr>active := False, cooldown := 0, duration := 0\<rparr>"
  by (cases m) (simp_all add: PowerManager_reset_def powerNames_def resetPower_def)

lemma frozenManager_eval:
  "frozenManager =
     \<lparr> freeze = \<lparr> active = True, cooldown = 5000, duration = 2000,
                  maxDuration = 2000, maxCooldown = 5000 \<rparr>,
       slow = \<lparr> active = False, cooldown = 0, duration = 0,
                maxDuration = 3000, maxCooldown = 4000 \<rparr>,
       speed = \<lparr> active = False, cooldown = 0, duration = 0,
                 maxDuration = 1500, maxCooldown = 6000 \<rparr>,
       currentTimeState = FROZEN,
       timeMultiplier = 0 \<rparr>"
  by (simp add: frozenManager_def activateFreeze_def canActivatePower_def PowerManager_new_def
      deactivateAllPowers_def powerNames_def deactivateIfActive_def updateTimeState_def
      GAME_CONFIG_defs Let_def)

lemma fastManager_eval:
  "fastManager =
     \<lparr> freeze = \<lparr> active = False, cooldown = 0, duration = 0,
                  maxDuration = 2000, maxCooldown = 5000 \<rparr>,
       slow = \<lparr> active = False, cooldown = 0, duration = 0,
                maxDuration = 3000, maxCooldown = 4000 \<rparr>,
       speed = \<lparr> active = True, cooldown = 6000, duration = 1500,
                 maxDuration = 1500, maxCooldown = 6000 \<rparr>,
       currentTimeState = FAST,
       timeMultiplier = 2 \<rparr>"
  by (simp add: fastManager_def activateSpeed_def canActivatePower_def PowerManager_new_def
      deactivateAllPowers_def powerNames_def deactivateIfActive_def updateTimeState_def
      GAME_CONFIG_defs Let_def)

subsection \<open>The time state is a function of the active flags\<close>

lemma timeConsistent_updateTimeState: "timeConsistent (updateTimeState pm)"
  by (simp add: timeConsistent_def updateTimeState_def stateOfFlags_def multiplierOfFlags_def)

lemma timeConsistent_update: "timeConsistent (PowerManager_update dt pm)"
  by (simp add: PowerManager_update_def timeConsistent_updateTimeState)

lemma timeConsistent_deactivatePower: "timeConsistent (deactivatePower n pm)"
  by (simp add: deactivatePower_def timeConsistent_updateTimeState)

lemma timeConsistent_deactivateIfActive: "timeConsistent pm \<Longrightarrow> timeConsistent (deactivateIfActive n pm)"
  by (simp add: deactivateIfActive_def timeConsistent_deactivatePower)

lemma timeConsistent_deactivateAll: "timeConsistent pm \<Longrightarrow> timeConsistent (deactivateAllPowers pm)"
  by (simp add: deactivateAllPowers_def powerNames_def timeConsistent_deactivateIfActive)

lemma timeConsistent_activate: "timeConsistent pm \<Longrightarrow> timeConsistent (snd (activate n pm))"
  by (cases n) (simp_all add: activateFreeze_def activateSlow_def activateSpeed_def Let_def timeConsistent_updateTimeState)

lemma timeConsistent_reset: "timeConsistent (PowerManager_reset pm)"
  by (simp add: PowerManager_reset_def powerNames_def resetPower_def timeConsistent_def stateOfFlags_def multiplierOfFlags_def)

lemma timeConsistent_new: "timeConsistent PowerManager_new"
  by (simp add: PowerManager_new_def timeConsistent_def stateOfFlags_def multiplierOfFlags_def)

lemma timeConsistent_step: "timeConsistent pm \<Longrightarrow> timeConsistent (pm_step pm op)"
  by (cases op) (simp_all add: timeConsistent_update timeConsistent_activate timeConsistent_deactivatePower
      timeConsistent_deactivateAll timeConsistent_reset)

lemma timeConsistent_foldl: "timeConsistent pm \<Longrightarrow> timeConsistent (foldl pm_step pm ops)"
  by (induction ops arbitrary: pm) (simp_all add: timeConsistent_step)

text \<open>
  Claim C3. After every sequence of PowerManager operations (update, activation requests,
  deactivation of one power or of all, reset) from the constructor state, the stored
  \<^verbatim>\<open>currentTimeState\<close> and \<^verbatim>\<open>timeMultiplier\<close> are the values the precedence
  Frozen, Slow, Fast, Normal assigns to the three active flags (multipliers 0.0, 0.5, 2.0,
  1.0), and the multiplier is one of 0.0, 0.5, 1.0, 2.0.
\<close>

theorem time_state_follows_flags:
  "currentTimeState (pm_run ops)
     = stateOfFlags (active (freeze (pm_run ops))) (active (slow (pm_run ops))) (active (speed (pm_run ops)))
   \<and> timeMultiplier (pm_run ops)
     = multiplierOfFlags (active (freeze (pm_run ops))) (active (slow (pm_run ops))) (active (speed (pm_run ops)))
   \<and> timeMultiplier (pm_run ops) \<in> {0, 0.5, 1, 2}"
proof -
  have "timeConsistent (pm_run ops)"
    unfolding pm_run_def using timeConsistent_new by (rule timeConsistent_foldl)
  then show ?thesis
    by (simp add: timeConsistent_def multiplierOfFlags_def)
qed

subsection \<open>Mutual exclusion of the powers\<close>

lemma active_tickPower: "active (tickPower dt p) \<Longrightarrow> active p"
  by (simp add: tickPower_def Let_def split: if_splits)

lemma countActive_update: "countActive (PowerManager_update dt pm) \<le> countActive pm"
  using active_tickPower [of dt "freeze pm"] active_tickPower [of dt "slow pm"]
    active_tickPower [of dt "speed pm"]
    getPower_update [of Freeze dt pm] getPower_update [of Slow dt pm] getPower_update [of Speed dt pm]
  by (auto simp add: countActive_def)

lemma atMostOne_activate: "atMostOneActive pm \<Longrightarrow> atMostOneActive (snd (activate n pm))"
proof (cases "canActivatePower n pm")
  case False
  assume "atMostOneActive pm"
  with False show ?thesis by (simp add: activate_fail)
next
  case True
  show ?thesis
    using getPower_activate [OF True, of Freeze] getPower_activate [OF True, of Slow]
      getPower_activate [OF True, of Speed]
    by (cases n) (auto simp add: countActive_def atMostOneActive_def)
qed

lemma countActive_deactivatePower: "countActive (deactivatePower n pm) \<le> countActive pm"
  using getPower_deactivatePower [of Freeze n pm] getPower_deactivatePower [of Slow n pm]
    getPower_deactivatePower [of Speed n pm]
  by (cases n) (auto simp add: countActive_def)

lemma countActive_deactivateAll: "countActive (deactivateAllPowers pm) = 0"
  using getPower_deactivateAllPowers [of Freeze pm] getPower_deactivateAllPowers [of Slow pm]
    getPower_deactivateAllPowers [of Speed pm]
  by (auto simp add: countActive_def)

lemma countActive_reset: "countActive (PowerManager_reset pm) = 0"
  using getPower_reset [of Freeze pm] getPower_reset [of Slow pm] getPower_reset [of Speed pm]
  by (auto simp add: countActive_def)

lemma atMostOne_new: "atMostOneActive PowerManager_new"
  by (simp add: countActive_def PowerManager_new_def atMostOneActive_def)

lemma atMostOne_step: "atMostOneActive pm \<Longrightarrow> atMostOneActive (pm_step pm op)"
proof (cases op)
  case (OpUpdate dt)
  assume "atMostOneActive pm"
  with OpUpdate countActive_update [of dt pm] show ?thesis by (simp add: atMostOneActive_def)
next
  case (OpActivate n)
  assume "atMostOneActive pm"
  with OpActivate show ?thesis by (simp add: atMostOne_activate)
next
  case (OpDeactivate n)
  assume "atMostOneActive pm"
  with OpDeactivate countActive_deactivatePower [of n pm] show ?thesis by (simp add: atMostOneActive_def)
next
  case OpDeactivateAll
  then show ?thesis by (simp add: countActive_deactivateAll atMostOneActive_def)
next
  case OpReset
  then show ?thesis by (simp add: countActive_reset atMostOneActive_def)
qed

lemma atMostOne_foldl: "atMostOneActive pm \<Longrightarrow> atMostOneActive (foldl pm_step pm ops)"
  by (induction ops arbitrary: pm) (simp_all add: atMostOne_step)

text \<open>
  Claim C4. For every interleaving of updates, activation requests, deactivations and
  resets from the constructor state, at most one of freeze, slow and speed has its active
  flag set: the number of set flags is at most one, and no two flags are set together.
  As the statement holds for every sequence, it holds after each of its prefixes, that
  is at every instant between two calls.
\<close>

theorem at_most_one_power_active:
  "countActive (pm_run ops) \<le> 1
   \<and> \<not> (active (freeze (pm_run ops)) \<and> active (slow (pm_run ops)))
   \<and> \<not> (active (freeze (pm_run ops)) \<and> active (speed (pm_run ops)))
   \<and> \<not> (active (slow (pm_run ops)) \<and> active (speed (pm_run ops)))"
proof -
  have "atMostOneActive (pm_run ops)"
    unfolding pm_run_def using atMostOne_new by (rule atMostOne_foldl)
  then show ?thesis
    by (auto simp add: atMostOneActive_def countActive_def split: if_splits)
qed

subsection \<open>Activation requests\<close>

text \<open>
  Claim C5. When the activation of ability \<open>a\<close> succeeds while ability \<open>b\<close> is active,
  then afterwards \<open>b\<close> is inactive with the cooldown it had before the call, and \<open>a\<close> is
  active with its full duration \<^verbatim>\<open>maxDuration\<close> and its full cooldown
  \<^verbatim>\<open>maxCooldown\<close>.
\<close>

theorem activation_interrupts:
  assumes "fst (activate a pm)" and "active (getPower b pm)"
  shows "\<not> active (getPower b (snd (activate a pm)))
         \<and> cooldown (getPower b (snd (activate a pm))) = cooldown (getPower b pm)
         \<and> active (getPower a (snd (activate a pm)))
         \<and> duration (getPower a (snd (activate a pm))) = maxDuration (getPower a pm)
         \<and> cooldown (getPower a (snd (activate a pm))) = maxCooldown (getPower a pm)"
proof -
  from assms(1) have can: "canActivatePower a pm" by (simp add: fst_activate)
  with assms(2) have "a \<noteq> b" by (auto simp add: canActivatePower_def)
  then show ?thesis
    using assms(2) by (simp add: getPower_activate [OF can])
qed

theorem activation_interrupts_witness:
  "fst (activate Slow frozenManager) \<and> active (getPower Freeze frozenManager)
   \<and> \<not> active (getPower Freeze (snd (activate Slow frozenManager)))
   \<and> cooldown (getPower Freeze (snd (activate Slow frozenManager))) = 5000
   \<and> active (getPower Slow (snd (activate Slow frozenManager)))
   \<and> duration (getPower Slow (snd (activate Slow frozenManager))) = 3000
   \<and> cooldown (getPower Slow (snd (activate Slow frozenManager))) = 4000"
proof -
  have a: "fst (activate Slow frozenManager)"
    using fst_activate [of Slow frozenManager]
    by (simp add: canActivatePower_def frozenManager_eval)
  have b: "active (getPower Freeze frozenManager)"
    by (simp add: frozenManager_eval)
  show ?thesis
    using a b activation_interrupts [OF a b] by (simp add: frozenManager_eval)
qed

text \<open>
  Claim C6. An activation request returns true exactly when the power is not active and
  its cooldown is at most zero; when it returns false the whole manager (every field of
  every power, the time state and the multiplier) is unchanged. The request is a total
  function with a boolean result: there is no error branch.
\<close>

theorem activation_request_result:
  "fst (activate n pm) = (\<not> active (getPower n pm) \<and> cooldown (getPower n pm) \<le> 0)
   \<and> (\<not> fst (activate n pm) \<longrightarrow> snd (activate n pm) = pm)"
  by (auto simp add: fst_activate canActivatePower_def activate_fail)

theorem activation_request_result_witness:
  "\<not> fst (activate Freeze frozenManager) \<and> snd (activate Freeze frozenManager) = frozenManager"
proof -
  have "\<not> fst (activate Freeze frozenManager)"
    using activation_request_result [of Freeze frozenManager] by (simp add: frozenManager_eval)
  then show ?thesis
    using activation_request_result [of Freeze frozenManager] by simp
qed

subsection \<open>Durations and cooldowns stay non-negative\<close>

lemma powerNonneg_tick: "powerNonneg p \<Longrightarrow> powerNonneg (tickPower dt p)"
  by (simp add: powerNonneg_def tickPower_def Let_def)

lemma timersNonneg_getPower: "timersNonneg pm = (\<forall>n. powerNonneg (getPower n pm))"
proof
  assume "timersNonneg pm"
  then show "\<forall>n. powerNonneg (getPower n pm)"
    by (auto simp add: timersNonneg_def intro: powerName.exhaust) (metis getPower.simps powerName.exhaust)
next
  assume a: "\<forall>n. powerNonneg (getPower n pm)"
  from a [rule_format, of Freeze] a [rule_format, of Slow] a [rule_format, of Speed]
  show "timersNonneg pm" by (simp add: timersNonneg_def)
qed

lemma timersNonneg_update: "timersNonneg pm \<Longrightarrow> timersNonneg (PowerManager_update dt pm)"
  by (simp add: timersNonneg_getPower getPower_update powerNonneg_tick)

lemma timersNonneg_deactivatePower: "timersNonneg pm \<Longrightarrow> timersNonneg (deactivatePower n pm)"
  by (simp add: timersNonneg_getPower getPower_deactivatePower powerNonneg_def)

lemma timersNonneg_deactivateAll: "timersNonneg pm \<Longrightarrow> timersNonneg (deactivateAllPowers pm)"
  by (simp add: timersNonneg_getPower getPower_deactivateAllPowers powerNonneg_def)

lemma timersNonneg_reset: "timersNonneg pm \<Longrightarrow> timersNonneg (PowerManager_reset pm)"
  by (simp add: timersNonneg_getPower getPower_reset powerNonneg_def)

lemma timersNonneg_activate: "timersNonneg pm \<Longrightarrow> timersNonneg (snd (activate n pm))"
proof (cases "canActivatePower n pm")
  case False
  assume "timersNonneg pm"
  with False show ?thesis by (simp add: activate_fail)
next
  case True
  assume "timersNonneg pm"
  then show ?thesis
    by (simp add: timersNonneg_getPower getPower_activate [OF True] powerNonneg_def)
qed

lemma timersNonneg_new: "timersNonneg PowerManager_new"
  by (simp add: timersNonneg_def powerNonneg_def PowerManager_new_def GAME_CONFIG_defs)

lemma timersNonneg_step: "timersNonneg pm \<Longrightarrow> timersNonneg (pm_step pm op)"
  by (cases op) (simp_all add: timersNonneg_update timersNonneg_activate timersNonneg_deactivatePower
      timersNonneg_deactivateAll timersNonneg_reset)

lemma timersNonneg_foldl: "timersNonneg pm \<Longrightarrow> timersNonneg (foldl pm_step pm ops)"
  by (induction ops arbitrary: pm) (simp_all add: timersNonneg_step)

text \<open>Non-negativity is an invariant of every operation, whatever the deltas are.\<close>

lemma timers_nonneg_any_delta:
  "0 \<le> duration (getPower n (pm_run ops)) \<and> 0 \<le> cooldown (getPower n (pm_run ops))"
proof -
  have "timersNonneg (pm_run ops)"
    unfolding pm_run_def using timersNonneg_new by (rule timersNonneg_foldl)
  then have "powerNonneg (getPower n (pm_run ops))"
    by (simp add: timersNonneg_getPower)
  then show ?thesis by (simp add: powerNonneg_def)
qed

text \<open>
  Claim C7. For every sequence of operations from the constructor state in which every
  update has a delta of at least zero, the remaining duration and the remaining cooldown
  of every power are at least zero after the sequence, hence after each call in it.
\<close>

theorem timers_never_negative:
  assumes "\<forall>op \<in> set ops. deltaNonneg op"
  shows "0 \<le> duration (getPower n (pm_run ops)) \<and> 0 \<le> cooldown (getPower n (pm_run ops))"
  by (rule timers_nonneg_any_delta)

lemma four_ops_eval:
  "pm_run [OpActivate Freeze, OpUpdate 500, OpActivate Slow, OpUpdate 3000] =
     \<lparr> freeze = \<lparr> active = False, cooldown = 1500, duration = 0,
                  maxDuration = 2000, maxCooldown = 5000 \<rparr>,
       slow = \<lparr> active = False, cooldown = 1000, duration = 0,
                maxDuration = 3000, maxCooldown = 4000 \<rparr>,
       speed = \<lparr> active = False, cooldown = 0, duration = 0,
                 maxDuration = 1500, maxCooldown = 6000 \<rparr>,
       currentTimeState = NORMAL,
       timeMultiplier = 1 \<rparr>"
  by (simp add: pm_run_def PowerManager_new_def activateFreeze_def activateSlow_def
      canActivatePower_def deactivateAllPowers_def powerNames_def deactivateIfActive_def
      deactivatePower_def updateTimeState_def PowerManager_update_def updatePower_def
      GAME_CONFIG_defs Let_def)

theorem timers_never_negative_witness:
  "list_all deltaNonneg [OpActivate Freeze, OpUpdate 500, OpActivate Slow, OpUpdate 3000]
   \<and> 0 \<le> duration (getPower Freeze (pm_run [OpActivate Freeze, OpUpdate 500, OpActivate Slow, OpUpdate 3000]))
   \<and> 0 \<le> cooldown (getPower Freeze (pm_run [OpActivate Freeze, OpUpdate 500, OpActivate Slow, OpUpdate 3000]))
   \<and> cooldown (getPower Freeze (pm_run [OpActivate Freeze, OpUpdate 500, OpActivate Slow, OpUpdate 3000])) = 1500"
proof -
  have h: "\<forall>op \<in> set [OpActivate Freeze, OpUpdate 500, OpActivate Slow, OpUpdate 3000]. deltaNonneg op"
    by simp
  have "list_all deltaNonneg [OpActivate Freeze, OpUpdate 500, OpActivate Slow, OpUpdate 3000]"
    by simp
  moreover have "cooldown (getPower Freeze (pm_run [OpActivate Freeze, OpUpdate 500, OpActivate Slow, OpUpdate 3000])) = 1500"
    by (simp add: four_ops_eval)
  ultimately show ?thesis using timers_never_negative [OF h, of Freeze] by blast
qed

subsection \<open>Countdown of an activated power\<close>

lemma tickPower_inactive:
  "\<not> active p \<Longrightarrow> 0 \<le> cooldown p \<Longrightarrow> 0 \<le> d \<Longrightarrow>
   tickPower d p = p\<lparr>cooldown := max 0 (cooldown p - d)\<rparr>"
  by (simp add: tickPower_def Let_def max_def)

lemma tick_run_inactive:
  "\<not> active p \<Longrightarrow> 0 \<le> cooldown p \<Longrightarrow> \<forall>d \<in> set ds. 0 \<le> d \<Longrightarrow>
   foldl (\<lambda>q d. tickPower d q) p ds = p\<lparr>cooldown := max 0 (cooldown p - sum_list ds)\<rparr>"
proof (induction ds arbitrary: p)
  case Nil
  then show ?case by (simp add: max_def)
next
  case (Cons d ds)
  then have d: "0 \<le> d" and ds: "\<forall>d \<in> set ds. 0 \<le> d" by simp_all
  have s: "0 \<le> sum_list ds" using ds by (simp add: sum_list_nonneg)
  have t: "tickPower d p = p\<lparr>cooldown := max 0 (cooldown p - d)\<rparr>"
    using Cons.prems(1,2) d by (rule tickPower_inactive)
  have "foldl (\<lambda>q d. tickPower d q) (tickPower d p) ds
        = (tickPower d p)\<lparr>cooldown := max 0 (cooldown (tickPower d p) - sum_list ds)\<rparr>"
    using Cons.prems(1) ds by (intro Cons.IH) (simp_all add: t)
  then show ?case using s d by (simp add: t max_def)
qed

lemma tick_run_active:
  "active p \<Longrightarrow> 0 < duration p \<Longrightarrow> 0 \<le> cooldown p \<Longrightarrow> \<forall>d \<in> set ds. 0 \<le> d \<Longrightarrow>
   foldl (\<lambda>q d. tickPower d q) p ds =
     (if sum_list ds < duration p
      then p\<lparr>duration := duration p - sum_list ds, cooldown := max 0 (cooldown p - sum_list ds)\<rparr>
      else p\<lparr>active := False, duration := 0, cooldown := max 0 (cooldown p - sum_list ds)\<rparr>)"
proof (induction ds arbitrary: p)
  case Nil
  then show ?case by (simp add: max_def)
next
  case (Cons d ds)
  then have d: "0 \<le> d" and ds: "\<forall>d \<in> set ds. 0 \<le> d" by simp_all
  have s: "0 \<le> sum_list ds" using ds by (simp add: sum_list_nonneg)
  show ?case
  proof (cases "d < duration p")
    case True
    have t: "tickPower d p = p\<lparr>duration := duration p - d, cooldown := max 0 (cooldown p - d)\<rparr>"
      using True Cons.prems(1,3) d by (simp add: tickPower_def Let_def max_def)
    have "foldl (\<lambda>q d. tickPower d q) (tickPower d p) ds =
       (if sum_list ds < duration (tickPower d p)
        then (tickPower d p)\<lparr>duration := duration (tickPower d p) - sum_list ds,
                cooldown := max 0 (cooldown (tickPower d p) - sum_list ds)\<rparr>
        else (tickPower d p)\<lparr>active := False, duration := 0,
                cooldown := max 0 (cooldown (tickPower d p) - sum_list ds)\<rparr>)"
      using True Cons.prems(1) ds by (intro Cons.IH) (simp_all add: t)
    then show ?thesis using s d True by (auto simp add: t max_def)
  next
    case False
    have t: "tickPower d p = p\<lparr>active := False, duration := 0, cooldown := max 0 (cooldown p - d)\<rparr>"
      using False Cons.prems(1,3) d by (simp add: tickPower_def Let_def max_def)
    have "foldl (\<lambda>q d. tickPower d q) (tickPower d p) ds
        = (tickPower d p)\<lparr>cooldown := max 0 (cooldown (tickPower d p) - sum_list ds)\<rparr>"
      using ds by (intro tick_run_inactive) (simp_all add: t)
    then show ?thesis using s d False by (auto simp add: t max_def)
  qed
qed

text \<open>
  The PowerManager on its own: after a successful \<^verbatim>\<open>activateFreeze()\<close> the multiplier
  is 0, and updates with non-negative deltas that add up to 2000 leave freeze inactive
  with a cooldown of 3000.
\<close>

lemma freeze_expires:
  assumes can: "canActivatePower Freeze pm"
    and cfg: "maxDuration (freeze pm) = 2000" "maxCooldown (freeze pm) = 5000"
    and nn: "\<forall>d \<in> set ds. 0 \<le> d"
    and total: "sum_list ds = 2000"
  shows "active (freeze (snd (activateFreeze pm)))
         \<and> timeMultiplier (snd (activateFreeze pm)) = 0
         \<and> \<not> active (freeze (PowerManager_run ds (snd (activateFreeze pm))))
         \<and> cooldown (freeze (PowerManager_run ds (snd (activateFreeze pm)))) = 3000"
proof -
  let ?p = "freeze (snd (activateFreeze pm))"
  have p: "?p = (freeze pm)\<lparr>active := True, duration := 2000, cooldown := 5000\<rparr>"
    using getPower_activate [OF can, of Freeze] cfg by simp
  have tc: "timeConsistent (snd (activateFreeze pm))"
    using can by (simp add: activateFreeze_def Let_def timeConsistent_updateTimeState)
  have m: "timeMultiplier (snd (activateFreeze pm)) = 0"
    using tc p by (simp add: timeConsistent_def multiplierOfFlags_def)
  have "freeze (PowerManager_run ds (snd (activateFreeze pm))) = foldl (\<lambda>q d. tickPower d q) ?p ds"
    using getPower_run [of Freeze ds "snd (activateFreeze pm)"] by simp
  also have "\<dots> = ?p\<lparr>active := False, duration := 0, cooldown := max 0 (cooldown ?p - sum_list ds)\<rparr>"
    using nn total by (subst tick_run_active) (simp_all add: p)
  finally show ?thesis using total m by (simp add: p)
qed

text \<open>An obstacle updated with multiplier 0 keeps its position.\<close>

lemma frozen_obstacle_stays: "o_x (Obstacle_update deltaTime 0 ob) = o_x ob"
  by (simp add: Obstacle_update_def Let_def)

lemma frozen_obstacles_stay:
  "map o_x (obstacles (updateObstacles deltaTime 0 om)) = map o_x (obstacles om)"
  by (simp add: updateObstacles_def frozen_obstacle_stays)

subsection \<open>ObstacleManager counters\<close>














subsection \<open>One frame of the game\<close>

lemmas om_defs = ObstacleManager_update_def updateSpawnRate_def handleSpawning_def spawnObstacle_def
  updateObstacles_def removeOffscreenObstacles_def Obstacle_update_def Obstacle_new_def isOffScreen_def
  getSpawnYForType_def randomBetween_def checkCollisions_def checkObstaclesPassed_def
  Obstacle_getBounds_def checkCollision_def hasPlayerPassed_def markAsPassed_def

lemmas player_defs = Player_update_def Player_getBounds_def clamp_def

text \<open>\<^verbatim>\<open>Game.update\<close> on a game in the playing state, field by field.\<close>

lemma Game_update_playing:
  "Game_update deltaTime d
     \<lparr> state = PLAYING, score = sc, timeElapsed = t, difficultyLevel = l, isRunning = r,
       player = p, obstacleManager = om, powerManager = pmo \<rparr> =
   (case checkCollisions (Player_getBounds (Player_update deltaTime 1 p))
           (ObstacleManager_update deltaTime (t + deltaTime)
              (max l \<lfloor>(t + deltaTime) / 20000\<rfloor>) 1 d om) of
      Some collidedObstacle \<Rightarrow>
        \<lparr> state = GAME_OVER, score = sc + deltaTime / 1000, timeElapsed = t + deltaTime,
          difficultyLevel = max l \<lfloor>(t + deltaTime) / 20000\<rfloor>, isRunning = r,
          player = Player_update deltaTime 1 p,
          obstacleManager = ObstacleManager_update deltaTime (t + deltaTime)
              (max l \<lfloor>(t + deltaTime) / 20000\<rfloor>) 1 d om,
          powerManager = pmo \<rparr>
    | None \<Rightarrow>
        \<lparr> state = PLAYING,
          score = sc + deltaTime / 1000
            + of_nat (fst (checkObstaclesPassed (p_x (Player_update deltaTime 1 p))
                (ObstacleManager_update deltaTime (t + deltaTime)
                   (max l \<lfloor>(t + deltaTime) / 20000\<rfloor>) 1 d om))) * 5,
          timeElapsed = t + deltaTime,
          difficultyLevel = max l \<lfloor>(t + deltaTime) / 20000\<rfloor>, isRunning = r,
          player = Player_update deltaTime 1 p,
          obstacleManager = snd (checkObstaclesPassed (p_x (Player_update deltaTime 1 p))
                (ObstacleManager_update deltaTime (t + deltaTime)
                   (max l \<lfloor>(t + deltaTime) / 20000\<rfloor>) 1 d om)),
          powerManager = pmo \<rparr>)"
  by (simp add: Game_update_def Let_def updateDifficulty_def updateScore_def handleGameOver_def
      SCORE_PER_SECOND_def SCORE_PER_OBSTACLE_def DIFFICULTY_INTERVAL_def max_def
      split: option.split prod.split)

lemma Game_update_not_playing: "state g \<noteq> PLAYING \<Longrightarrow> Game_update dt d g = g"
  by (simp add: Game_update_def)

lemma timeElapsed_after_update:
  "state g = PLAYING \<Longrightarrow> timeElapsed (Game_update dt d g) = timeElapsed g + dt"
  by (simp add: Game_update_def Let_def updateDifficulty_def updateScore_def handleGameOver_def
      split: option.split prod.split)

lemma difficultyLevel_after_update:
  "state g = PLAYING \<Longrightarrow>
   difficultyLevel (Game_update dt d g) =
     max (difficultyLevel g) \<lfloor>(timeElapsed g + dt) / DIFFICULTY_INTERVAL\<rfloor>"
  by (simp add: Game_update_def Let_def updateDifficulty_def updateScore_def handleGameOver_def
      split: option.split prod.split)

lemma Game_run_append: "Game_run (fs1 @ fs2) g = Game_run fs2 (Game_run fs1 g)"
  by (simp add: Game_run_def)

lemma Game_run_Cons: "Game_run ((dt, d) # fs) g = Game_run fs (Game_update dt d g)"
  by (simp add: Game_run_def)

lemma Game_run_Nil: "Game_run [] g = g"
  by (simp add: Game_run_def)

text \<open>\<^verbatim>\<open>Game.update\<close> neither reads nor writes the power manager.\<close>

lemma Game_update_keeps_powerManager: "powerManager (Game_update deltaTime d g) = powerManager g"
  by (cases g) (simp add: Game_update_def Let_def updateDifficulty_def updateScore_def
      handleGameOver_def split: option.split prod.split)


lemma playingGame_eval:
  "playingGame =
     \<lparr> state = PLAYING, score = 1.5, timeElapsed = 1500, difficultyLevel = 0, isRunning = True,
       player = \<lparr> p_x = 550, p_y = 480, p_width = 40, p_height = 60, p_speed = 300,
                  p_baseSpeed = 300, p_animationTime = 1500, p_isActive = True \<rparr>,
       obstacleManager =
         \<lparr> obstacles = [\<lparr> o_x = 950, o_y = 200, o_type = DEBRIS, o_width = 50, o_height = 50,
                          o_speed = 200, o_baseSpeed = 200, o_animationTime = 1500,
                          o_isActive = True, o_hasBeenPassed = False \<rparr>],
           lastSpawnTime = 1500, spawnRate = 1500, minSpawnGap = 500, om_difficultyLevel = 0,
           baseSpawnRate = 1500, om_baseSpeed = 200, totalSpawned = 1, totalDestroyed = 0 \<rparr>,
       powerManager = Some PowerManager_new \<rparr>"
  by (simp add: playingGame_def gameWithPowers_def Game_init_def startGame_def Player_new_def
      ObstacleManager_new_def Game_update_playing player_defs om_defs GAME_CONFIG_defs
      sampleDraws_def Let_def)





subsection \<open>Time powers and the game loop\<close>

text \<open>
  In the game as \<^verbatim>\<open>init()\<close> leaves it the \<^verbatim>\<open>powerManager\<close> field is null and
  stays null, and the keys F, S and D do nothing.
\<close>

lemma power_keys_without_manager:
  "powerManager g = None \<Longrightarrow>
   handleKeyPress KeyF g = g \<and> handleKeyPress KeyS g = g \<and> handleKeyPress KeyD g = g"
  by (simp add: activateInGame_def)

lemma shipped_game_has_no_manager:
  "powerManager (Game_run frames (handleKeyPress Space Game_init)) = None"
proof -
  have "powerManager (Game_run frames g) = powerManager g" for g
  proof (induction frames arbitrary: g)
    case Nil
    then show ?case by (simp add: Game_run_Nil)
  next
    case (Cons f frames)
    obtain dt d where f: "f = (dt, d)" by (cases f)
    show ?case by (simp add: f Game_run_Cons Cons.IH Game_update_keeps_powerManager)
  qed
  then show ?thesis by (simp add: Game_init_def startGame_def)
qed



text \<open>The score computations of the Three.js variant double under Speed.\<close>

lemma three_variant_score:
  "scoreMultiplier_three (Some pm) = (if currentTimeState pm = FAST then 2 else 1)"
  by (simp add: scoreMultiplier_three_def getCurrentTimeState_def)

lemma three_variant_doubles:
  "updateScore_three 1000 (Some fastManager) 1.5 = 3.5
   \<and> passBonus_three 1 (getCurrentTimeState fastManager) 3.5 = 13.5"
  by (simp add: updateScore_three_def scoreMultiplier_three_def passBonus_three_def
      getCurrentTimeState_def fastManager_eval GAME_CONFIG_defs)

subsection \<open>Negative deltas\<close>

lemma tickPower_negative:
  assumes "deltaTime < 0" and "0 \<le> duration p"
  shows "tickPower deltaTime p =
     p\<lparr>duration := (if active p then duration p - deltaTime else duration p),
       cooldown := (if 0 < cooldown p then cooldown p - deltaTime else cooldown p)\<rparr>"
  using assms by (simp add: tickPower_def Let_def)

lemma cooldown_tickPower_negative:
  "deltaTime < 0 \<Longrightarrow>
   cooldown (tickPower deltaTime p) = (if 0 < cooldown p then cooldown p - deltaTime else cooldown p)"
  by (simp add: tickPower_def Let_def)

text \<open>
  Claim C8 fails: nothing clamps a negative delta. With Freeze active (duration 2000,
  cooldown 5000) an update by -1000 gives duration 3000 and cooldown 6000, where an update
  by 0 gives 2000 and 5000; a frame of -1000 ms takes \<^verbatim>\<open>timeElapsed\<close> from 1500 to
  500 and the score from 1.5 to 0.5, where a frame of 0 ms leaves them at 1500 and 1.5.
\<close>

theorem negative_delta_counterexample:
  "duration (freeze (PowerManager_update (- 1000) frozenManager)) = 3000
   \<and> cooldown (freeze (PowerManager_update (- 1000) frozenManager)) = 6000
   \<and> duration (freeze (PowerManager_update 0 frozenManager)) = 2000
   \<and> cooldown (freeze (PowerManager_update 0 frozenManager)) = 5000
   \<and> timeElapsed (Game_update (- 1000) sampleDraws playingGame) = 500
   \<and> timeElapsed (Game_update 0 sampleDraws playingGame) = 1500
   \<and> score (Game_update (- 1000) sampleDraws playingGame) = 0.5
   \<and> score (Game_update 0 sampleDraws playingGame) = 1.5"
proof -
  have pm: "freeze (PowerManager_update (- 1000) frozenManager) = tickPower (- 1000) (freeze frozenManager)"
    "freeze (PowerManager_update 0 frozenManager) = tickPower 0 (freeze frozenManager)"
    using getPower_update [of Freeze "- 1000" frozenManager] getPower_update [of Freeze 0 frozenManager]
    by simp_all
  have a: "duration (freeze (PowerManager_update (- 1000) frozenManager)) = 3000
     \<and> cooldown (freeze (PowerManager_update (- 1000) frozenManager)) = 6000
     \<and> duration (freeze (PowerManager_update 0 frozenManager)) = 2000
     \<and> cooldown (freeze (PowerManager_update 0 frozenManager)) = 5000"
    by (simp only: pm) (simp add: tickPower_def frozenManager_eval Let_def)
  have b: "timeElapsed (Game_update (- 1000) sampleDraws playingGame) = 500
     \<and> score (Game_update (- 1000) sampleDraws playingGame) = 0.5"
    by (simp add: playingGame_eval Game_update_playing player_defs om_defs GAME_CONFIG_defs
      sampleDraws_def Let_def)
  have c: "timeElapsed (Game_update 0 sampleDraws playingGame) = 1500
     \<and> score (Game_update 0 sampleDraws playingGame) = 1.5"
    by (simp add: playingGame_eval Game_update_playing player_defs om_defs GAME_CONFIG_defs
      sampleDraws_def Let_def)
  from a b c show ?thesis by blast
qed

text \<open>
  Claim C8, amended. A negative delta is applied as it is. In
  \<^verbatim>\<open>PowerManager.update\<close> a power whose remaining duration is not negative keeps its
  active flag, its duration grows by the absolute delta when it is active and stays
  otherwise; a positive cooldown grows by the absolute delta, and a cooldown that is not
  positive stays. In the playing state \<^verbatim>\<open>Game.update\<close> adds the delta to
  \<^verbatim>\<open>timeElapsed\<close>, and \<^verbatim>\<open>updateScore\<close> adds delta / 1000 to the score, so
  both decrease.
\<close>

theorem negative_delta_applied_unclamped:
  assumes "deltaTime < 0"
  shows "(0 \<le> duration (getPower n pm) \<longrightarrow>
            active (getPower n (PowerManager_update deltaTime pm)) = active (getPower n pm)
            \<and> duration (getPower n (PowerManager_update deltaTime pm))
                = (if active (getPower n pm) then duration (getPower n pm) - deltaTime
                   else duration (getPower n pm)))
         \<and> cooldown (getPower n (PowerManager_update deltaTime pm))
                = (if 0 < cooldown (getPower n pm) then cooldown (getPower n pm) - deltaTime
                   else cooldown (getPower n pm))
         \<and> (state g = PLAYING \<longrightarrow>
              timeElapsed (Game_update deltaTime d g) = timeElapsed g + deltaTime)
         \<and> score (updateScore deltaTime g) = score g + deltaTime / 1000"
  using assms
  by (simp add: getPower_update tickPower_negative cooldown_tickPower_negative
      timeElapsed_after_update updateScore_def SCORE_PER_SECOND_def del: getPower.simps)

theorem negative_delta_applied_unclamped_witness:
  "(- 1000 :: real) < 0
   \<and> active (getPower Freeze (PowerManager_update (- 1000) frozenManager))
   \<and> duration (getPower Freeze (PowerManager_update (- 1000) frozenManager)) = 3000
   \<and> cooldown (getPower Freeze (PowerManager_update (- 1000) frozenManager)) = 6000
   \<and> timeElapsed (Game_update (- 1000) sampleDraws playingGame) = 500
   \<and> score (updateScore (- 1000) playingGame) = 0.5"
  using negative_delta_applied_unclamped [of "- 1000" Freeze frozenManager playingGame sampleDraws]
  by (simp add: frozenManager_eval playingGame_eval)

subsection \<open>Difficulty level\<close>

lemma levelExact_update: "0 \<le> dt \<Longrightarrow> levelExact g \<Longrightarrow> levelExact (Game_update dt d g)"
proof (cases "state g = PLAYING")
  case False
  assume "levelExact g"
  with False show ?thesis by (simp add: Game_update_not_playing)
next
  case True
  assume dt: "0 \<le> dt" and ex: "levelExact g"
  have "timeElapsed g / DIFFICULTY_INTERVAL \<le> (timeElapsed g + dt) / DIFFICULTY_INTERVAL"
    using dt by (simp add: DIFFICULTY_INTERVAL_def)
  then have "\<lfloor>timeElapsed g / DIFFICULTY_INTERVAL\<rfloor> \<le> \<lfloor>(timeElapsed g + dt) / DIFFICULTY_INTERVAL\<rfloor>"
    by (rule floor_mono)
  with ex True show ?thesis
    by (simp add: levelExact_def timeElapsed_after_update difficultyLevel_after_update)
qed

lemma level_mono_update: "difficultyLevel g \<le> difficultyLevel (Game_update dt d g)"
  by (cases "state g = PLAYING") (simp_all add: Game_update_not_playing difficultyLevel_after_update)

lemma levelExact_start: "levelExact (startGame g)"
  by (simp add: levelExact_def startGame_def)

lemma levelExact_run:
  "\<forall>f \<in> set fs. 0 \<le> fst f \<Longrightarrow> levelExact g \<Longrightarrow> levelExact (Game_run fs g)"
proof (induction fs arbitrary: g)
  case Nil
  then show ?case by (simp add: Game_run_Nil)
next
  case (Cons f fs)
  obtain dt d where f: "f = (dt, d)" by (cases f)
  with Cons.prems have "0 \<le> dt" by simp
  then have "levelExact (Game_update dt d g)" using Cons.prems(2) by (rule levelExact_update)
  with Cons f show ?case by (simp add: Game_run_Cons)
qed

lemma level_mono_run: "difficultyLevel g \<le> difficultyLevel (Game_run fs g)"
proof (induction fs arbitrary: g)
  case Nil
  then show ?case by (simp add: Game_run_Nil)
next
  case (Cons f fs)
  obtain dt d where f: "f = (dt, d)" by (cases f)
  have "difficultyLevel g \<le> difficultyLevel (Game_update dt d g)" by (rule level_mono_update)
  also have "\<dots> \<le> difficultyLevel (Game_run fs (Game_update dt d g))" by (rule Cons.IH)
  finally show ?case using f by (simp add: Game_run_Cons)
qed

text \<open>
  Claim C9. From the state that \<^verbatim>\<open>startGame()\<close> produces (\<^verbatim>\<open>restart()\<close> ends
  with \<^verbatim>\<open>startGame()\<close>), after every sequence of updates with deltas of at least zero
  the difficulty level equals the floor of \<^verbatim>\<open>timeElapsed / 20000\<close>, and the level
  after a prefix of the run is at most the level after the whole run.
\<close>

theorem difficulty_level_floor:
  assumes "\<forall>f \<in> set (fs1 @ fs2). 0 \<le> fst f"
  shows "difficultyLevel (Game_run fs1 (startGame g))
           = \<lfloor>timeElapsed (Game_run fs1 (startGame g)) / 20000\<rfloor>
         \<and> difficultyLevel (Game_run fs1 (startGame g))
           \<le> difficultyLevel (Game_run (fs1 @ fs2) (startGame g))"
proof -
  from assms have "\<forall>f \<in> set fs1. 0 \<le> fst f" by simp
  then have "levelExact (Game_run fs1 (startGame g))"
    using levelExact_start by (rule levelExact_run)
  then have "difficultyLevel (Game_run fs1 (startGame g))
           = \<lfloor>timeElapsed (Game_run fs1 (startGame g)) / 20000\<rfloor>"
    by (simp add: levelExact_def DIFFICULTY_INTERVAL_def)
  moreover have "difficultyLevel (Game_run fs1 (startGame g))
           \<le> difficultyLevel (Game_run (fs1 @ fs2) (startGame g))"
    unfolding Game_run_append by (rule level_mono_run)
  ultimately show ?thesis by blast
qed

lemma two_frames_eval:
  "Game_run [(15000, sampleDraws), (5000, sampleDraws)] (startGame Game_init) =
     \<lparr> state = PLAYING, score = 25, timeElapsed = 20000, difficultyLevel = 1, isRunning = True,
       player = \<lparr> p_x = 1110, p_y = 480, p_width = 40, p_height = 60, p_speed = 300,
                  p_baseSpeed = 300, p_animationTime = 20000, p_isActive = True \<rparr>,
       obstacleManager =
         \<lparr> obstacles = [\<lparr> o_x = 50, o_y = 200, o_type = DEBRIS, o_width = 50, o_height = 50,
                          o_speed = 240, o_baseSpeed = 240, o_animationTime = 5000,
                          o_isActive = True, o_hasBeenPassed = True \<rparr>],
           lastSpawnTime = 20000, spawnRate = 1350, minSpawnGap = 500, om_difficultyLevel = 1,
           baseSpawnRate = 1500, om_baseSpeed = 200, totalSpawned = 2, totalDestroyed = 1 \<rparr>,
       powerManager = None \<rparr>"
  by (simp add: Game_run_def Game_init_def startGame_def Player_new_def
      ObstacleManager_new_def Game_update_playing player_defs om_defs GAME_CONFIG_defs
      sampleDraws_def Let_def)

theorem difficulty_level_floor_witness:
  "list_all (\<lambda>f. 0 \<le> fst f) ([(15000::real, sampleDraws), (5000, sampleDraws)] @ [(100, sampleDraws)])
   \<and> difficultyLevel (Game_run [(15000, sampleDraws), (5000, sampleDraws)] (startGame Game_init))
       = \<lfloor>timeElapsed (Game_run [(15000, sampleDraws), (5000, sampleDraws)] (startGame Game_init)) / 20000\<rfloor>
   \<and> difficultyLevel (Game_run [(15000, sampleDraws), (5000, sampleDraws)] (startGame Game_init))
       \<le> difficultyLevel (Game_run ([(15000, sampleDraws), (5000, sampleDraws)] @ [(100, sampleDraws)])
                              (startGame Game_init))
   \<and> timeElapsed (Game_run [(15000, sampleDraws), (5000, sampleDraws)] (startGame Game_init)) = 20000
   \<and> difficultyLevel (Game_run [(15000, sampleDraws), (5000, sampleDraws)] (startGame Game_init)) = 1"
proof -
  have v: "timeElapsed (Game_run [(15000, sampleDraws), (5000, sampleDraws)] (startGame Game_init)) = 20000
     \<and> difficultyLevel (Game_run [(15000, sampleDraws), (5000, sampleDraws)] (startGame Game_init)) = 1"
    by (simp add: two_frames_eval)
  have h: "\<forall>f \<in> set ([(15000::real, sampleDraws), (5000, sampleDraws)] @ [(100, sampleDraws)]). 0 \<le> fst f"
    by simp
  have "list_all (\<lambda>f. 0 \<le> fst f) ([(15000::real, sampleDraws), (5000, sampleDraws)] @ [(100, sampleDraws)])"
    by simp
  with v difficulty_level_floor [OF h, of Game_init] show ?thesis by blast
qed

end
